theory Spec2Isabelle
  imports Main "HOL-Library.Sublist"
begin

section \<open>Python values\<close>

text \<open>
  A Python \<open>str\<close> is a sequence of Unicode code points, so it is modelled as a list of
  naturals.  \<open>str\<close> embeds an ASCII literal; the accented letters of the Spanish messages
  are spliced in by code point.
\<close>

type_synonym pystr = "nat list"

definition str :: "string \<Rightarrow> pystr" where
  "str s = map of_char s"

text \<open>A naive \<open>datetime\<close> (pymongo decodes dates without time zone by default).\<close>

record datetime =
  year :: nat
  month :: nat
  day :: nat
  hour :: nat
  minute :: nat
  second :: nat
  microsecond :: nat

text \<open>
  A Python \<open>float\<close>: \<open>Finite m e\<close> is \<open>m * 2 ^ e\<close>; \<open>json.loads\<close> also produces
  infinities and NaN.  Only its truth value is ever inspected by the code.
\<close>

datatype pyfloat = Finite int int | Infinite | NaN

text \<open>
  The values that flow through the program: what \<open>json.loads\<close> produces (\<open>None\<close>, \<open>bool\<close>,
  \<open>int\<close>, \<open>float\<close>, \<open>str\<close>, \<open>list\<close>, \<open>dict\<close>) and the two further types that pymongo
  decodes from BSON (\<open>datetime\<close>, \<open>ObjectId\<close>).  A \<open>dict\<close> keeps insertion order, so it is
  an association list.  An \<open>ObjectId\<close> is represented by its 24 lower-case hex digits.
\<close>

datatype pyval =
    PNone
  | PBool bool
  | PInt int
  | PFloat pyfloat
  | PStr pystr
  | PList "pyval list"
  | PDict "(pystr \<times> pyval) list"
  | PDatetime datetime
  | PObjectId pystr

text \<open>The exceptions that the code can meet, by class.\<close>

datatype exn =
    HTTPStatusError nat
  | JSONDecodeError
  | AttributeError
  | TypeError
  | KeyError
  | IndexError
  | ValueError
  | ValidationError
  | InvalidId
  | DuplicateKeyError
  | OtherException

definition bind_exn :: "exn + 'a \<Rightarrow> ('a \<Rightarrow> exn + 'b) \<Rightarrow> exn + 'b" where
  "bind_exn m f = (case m of Inl e \<Rightarrow> Inl e | Inr x \<Rightarrow> f x)"

text \<open>Truth value of a Python object (\<open>if x:\<close>, \<open>not x\<close>, \<open>x and y\<close>).\<close>

fun truthy :: "pyval \<Rightarrow> bool" where
  "truthy PNone = False"
| "truthy (PBool b) = b"
| "truthy (PInt i) = (i \<noteq> 0)"
| "truthy (PFloat f) = (case f of Finite m e \<Rightarrow> m \<noteq> 0 | _ \<Rightarrow> True)"
| "truthy (PStr s) = (s \<noteq> [])"
| "truthy (PList xs) = (xs \<noteq> [])"
| "truthy (PDict d) = (d \<noteq> [])"
| "truthy (PDatetime d) = True"
| "truthy (PObjectId h) = True"

text \<open>An \<open>Optional[str]\<close> argument as a Python object, and its truth value.\<close>

definition opt_val :: "pystr option \<Rightarrow> pyval" where
  "opt_val x = (case x of None \<Rightarrow> PNone | Some s \<Rightarrow> PStr s)"

definition truthy_opt :: "pystr option \<Rightarrow> bool" where
  "truthy_opt x = truthy (opt_val x)"

text \<open>\<open>d.get(k)\<close> on a dict proper, and \<open>d[k] = v\<close> (an existing key keeps its place).\<close>

definition dict_get :: "(pystr \<times> 'v) list \<Rightarrow> pystr \<Rightarrow> 'v option" where
  "dict_get d k = map_of d k"

fun dict_set :: "(pystr \<times> 'v) list \<Rightarrow> pystr \<Rightarrow> 'v \<Rightarrow> (pystr \<times> 'v) list" where
  "dict_set [] k v = [(k, v)]"
| "dict_set ((k', v') # d) k v =
     (if k' = k then (k, v) # d else (k', v') # dict_set d k v)"

text \<open>
  Lists and dicts are unhashable: \<open>x in s\<close> for a set \<open>s\<close> raises \<open>TypeError\<close> on them.
  The sets of the program hold strings only, and no other value equals a string.
\<close>

fun hashable :: "pyval \<Rightarrow> bool" where
  "hashable (PList xs) = False"
| "hashable (PDict d) = False"
| "hashable v = True"

definition in_set :: "pyval \<Rightarrow> pystr list \<Rightarrow> exn + bool" where
  "in_set v S = (if hashable v then Inr (v \<in> PStr ` set S) else Inl TypeError)"

text \<open>\<open>x in xs\<close> for a list \<open>xs\<close> of strings compares with \<open>==\<close> and never raises.\<close>

definition in_list :: "pyval \<Rightarrow> pystr list \<Rightarrow> bool" where
  "in_list v xs = (v \<in> PStr ` set xs)"

section \<open>The world outside the program\<close>

text \<open>
  Everything the two modules obtain from their libraries and from the network is a field
  of one record, so that every theorem below holds for every behaviour of it:
  \<^item> \<open>GEMINI_API_KEY\<close>: the environment variable, if set;
  \<^item> \<open>llm_call\<close>: the outcome of \<open>client.post\<close>, \<open>raise_for_status\<close> and \<open>response.json()\<close>
    for an API key and a prompt: the decoded body, or the exception one of the three raised
    (\<open>HTTPStatusError c\<close> for a response of status \<open>c\<close>);
  \<^item> \<open>json_loads\<close>: \<open>json.loads\<close>;
  \<^item> \<open>str_validator\<close>: what pydantic makes of a value that is neither \<open>None\<close> nor a
    \<open>str\<close> in an \<open>Optional[str]\<close> field (a coercion or an error, by version);
  \<^item> \<open>unicode_alnum\<close>: the Unicode table behind \<open>\w\<close> beyond ASCII;
  \<^item> \<open>str_other\<close>: \<open>str(x)\<close> for an \<open>x\<close> that is not \<open>None\<close>, a \<open>str\<close> or an \<open>ObjectId\<close>;
  \<^item> \<open>driver_fault\<close>: the exception with which the MongoDB driver fails the call, if any;
  \<^item> \<open>new_oid\<close>: the \<open>ObjectId\<close> generated for an inserted document;
  \<^item> \<open>clock\<close>: \<open>datetime.now()\<close>.
  Logging with \<open>print\<close> is not modelled.
\<close>

record world =
  GEMINI_API_KEY :: "pystr option"
  llm_call :: "pystr \<Rightarrow> pystr \<Rightarrow> exn + pyval"
  json_loads :: "pystr \<Rightarrow> exn + pyval"
  str_validator :: "pyval \<Rightarrow> exn + pystr"
  unicode_alnum :: "nat \<Rightarrow> bool"
  str_other :: "pyval \<Rightarrow> pystr"
  driver_fault :: "exn option"
  new_oid :: pystr
  clock :: datetime

definition py_str :: "world \<Rightarrow> pyval \<Rightarrow> pystr" where
  "py_str w v =
     (case v of PStr s \<Rightarrow> s | PObjectId h \<Rightarrow> h | PNone \<Rightarrow> str ''None'' | _ \<Rightarrow> str_other w v)"

section \<open>The task store (db.py)\<close>

type_synonym document = "(pystr \<times> pyval) list"

text \<open>
  \<open>self.db\<close> is \<open>None\<close> without a connection; with one, the model keeps the documents of
  the collection \<open>db.tasks\<close> in their natural order.
\<close>

record MongoDBManager =
  db :: "document list option"

definition valid_statuses :: "pystr list" where
  "valid_statuses = [str ''pending'', str ''completed'', str ''in_progress'', str ''cancelled'']"

subsection \<open>The driver\<close>

definition is_hex :: "nat \<Rightarrow> bool" where
  "is_hex c = ((48 \<le> c \<and> c \<le> 57) \<or> (97 \<le> c \<and> c \<le> 102) \<or> (65 \<le> c \<and> c \<le> 70))"

definition lower_hex :: "nat \<Rightarrow> nat" where
  "lower_hex c = (if 65 \<le> c \<and> c \<le> 70 then c + 32 else c)"

text \<open>\<open>ObjectId(s)\<close> for a string: 24 hex digits, or \<open>InvalidId\<close>.\<close>

definition ObjectId :: "pystr \<Rightarrow> exn + pystr" where
  "ObjectId s =
     (if length s = 24 \<and> list_all is_hex s then Inr (map lower_hex s) else Inl InvalidId)"

definition doc_id :: "document \<Rightarrow> pyval option" where
  "doc_id d = dict_get d (str ''_id'')"

text \<open>\<open>insert_one\<close>: the driver gives the document its \<open>_id\<close>, which must be new.\<close>

definition insert_one :: "world \<Rightarrow> document list \<Rightarrow> document \<Rightarrow> exn + (pystr \<times> document list)" where
  "insert_one w coll d =
     (case driver_fault w of Some e \<Rightarrow> Inl e
      | None \<Rightarrow>
          if Some (PObjectId (new_oid w)) \<in> set (map doc_id coll) then Inl DuplicateKeyError
          else Inr (new_oid w, coll @ [(str ''_id'', PObjectId (new_oid w)) # d]))"

definition find_all :: "world \<Rightarrow> document list \<Rightarrow> exn + document list" where
  "find_all w coll = (case driver_fault w of Some e \<Rightarrow> Inl e | None \<Rightarrow> Inr coll)"

text \<open>
  \<open>update_one({"_id": oid}, {"$set": update_fields})\<close>: the first document with that \<open>_id\<close> gets
  the fields; \<open>modified_count\<close> is 1 when that changed it, else 0.
\<close>

definition set_fields :: "document \<Rightarrow> document \<Rightarrow> document" where
  "set_fields d flds = fold (\<lambda>(k, v) acc. dict_set acc k v) flds d"

fun update_first :: "pystr \<Rightarrow> document \<Rightarrow> document list \<Rightarrow> nat \<times> document list" where
  "update_first oid flds [] = (0, [])"
| "update_first oid flds (d # ds) =
     (if doc_id d = Some (PObjectId oid)
      then (if set_fields d flds = d then 0 else 1, set_fields d flds # ds)
      else (case update_first oid flds ds of (n, ds') \<Rightarrow> (n, d # ds')))"

definition update_one :: "world \<Rightarrow> document list \<Rightarrow> pystr \<Rightarrow> document \<Rightarrow> exn + (nat \<times> document list)" where
  "update_one w coll oid flds =
     (case driver_fault w of Some e \<Rightarrow> Inl e | None \<Rightarrow> Inr (update_first oid flds coll))"

fun delete_first :: "pystr \<Rightarrow> document list \<Rightarrow> nat \<times> document list" where
  "delete_first oid [] = (0, [])"
| "delete_first oid (d # ds) =
     (if doc_id d = Some (PObjectId oid) then (1, ds)
      else (case delete_first oid ds of (n, ds') \<Rightarrow> (n, d # ds')))"

definition delete_one :: "world \<Rightarrow> document list \<Rightarrow> pystr \<Rightarrow> exn + (nat \<times> document list)" where
  "delete_one w coll oid =
     (case driver_fault w of Some e \<Rightarrow> Inl e | None \<Rightarrow> Inr (delete_first oid coll))"

subsection \<open>add_task\<close>

text \<open>
  The signature's default \<open>status = "pending"\<close> applies only to a call that omits the
  argument; the model takes the argument as passed.
\<close>

definition add_task ::
  "world \<Rightarrow> MongoDBManager \<Rightarrow> pystr \<Rightarrow> pystr option \<Rightarrow> pystr option
     \<Rightarrow> pystr option \<times> MongoDBManager" where
  "add_task w self descr sdate st =
     (case db self of
        None \<Rightarrow> (None, self)
      | Some coll \<Rightarrow>
          let task_data = [(str ''description'', PStr descr),
                           (str ''created_at'', PDatetime (clock w)),
                           (str ''status'', opt_val st)];
              task_data' = (if truthy_opt sdate
                            then dict_set task_data (str ''start_date'') (opt_val sdate)
                            else task_data)
          in (case insert_one w coll task_data' of
                Inl e \<Rightarrow> (None, self)
              | Inr (inserted_id, coll') \<Rightarrow> (Some inserted_id, self\<lparr>db := Some coll'\<rparr>)))"

subsection \<open>get_all_tasks\<close>

fun digits :: "nat \<Rightarrow> nat \<Rightarrow> pystr" where
  "digits 0 n = []"
| "digits (Suc k) n = digits k (n div 10) @ [48 + n mod 10]"

definition isoformat :: "datetime \<Rightarrow> pystr" where
  "isoformat d =
     digits 4 (year d) @ str ''-'' @ digits 2 (month d) @ str ''-'' @ digits 2 (day d)
     @ str ''T'' @ digits 2 (hour d) @ str '':'' @ digits 2 (minute d) @ str '':''
     @ digits 2 (second d)
     @ (if microsecond d = 0 then [] else str ''.'' @ digits 6 (microsecond d))"

text \<open>The body of the \<open>for\<close> loop, on one decoded document.\<close>

definition fix_task_doc :: "world \<Rightarrow> document \<Rightarrow> exn + document" where
  "fix_task_doc w task_doc =
     (case dict_get task_doc (str ''_id'') of
        None \<Rightarrow> Inl KeyError
      | Some i \<Rightarrow>
          let d1 = dict_set task_doc (str ''_id'') (PStr (py_str w i));
              current_status = (case dict_get d1 (str ''status'') of None \<Rightarrow> PNone | Some v \<Rightarrow> v)
          in bind_exn (in_set current_status valid_statuses) (\<lambda>ok.
               let d2 = (if \<not> ok then dict_set d1 (str ''status'') (PStr (str ''pending'')) else d1)
               in Inr (case dict_get d2 (str ''created_at'') of
                         Some (PDatetime t) \<Rightarrow> dict_set d2 (str ''created_at'') (PStr (isoformat t))
                       | _ \<Rightarrow> d2)))"

fun fix_task_docs :: "world \<Rightarrow> document list \<Rightarrow> exn + document list" where
  "fix_task_docs w [] = Inr []"
| "fix_task_docs w (d # ds) =
     bind_exn (fix_task_doc w d) (\<lambda>t. bind_exn (fix_task_docs w ds) (\<lambda>ts. Inr (t # ts)))"

definition get_all_tasks :: "world \<Rightarrow> MongoDBManager \<Rightarrow> document list \<times> MongoDBManager" where
  "get_all_tasks w self =
     (case db self of
        None \<Rightarrow> ([], self)
      | Some coll \<Rightarrow>
          (case bind_exn (find_all w coll) (fix_task_docs w) of
             Inl e \<Rightarrow> ([], self)
           | Inr tasks \<Rightarrow> (tasks, self)))"

subsection \<open>update_task\<close>

definition update_task ::
  "world \<Rightarrow> MongoDBManager \<Rightarrow> pystr \<Rightarrow> pystr option \<Rightarrow> pystr option \<Rightarrow> pystr option
     \<Rightarrow> bool \<times> MongoDBManager" where
  "update_task w self tid descr sdate st =
     (case db self of
        None \<Rightarrow> (False, self)
      | Some coll \<Rightarrow>
          let f0 = [];
              f1 = (if truthy_opt descr then dict_set f0 (str ''description'') (opt_val descr) else f0);
              f2 = (if truthy_opt sdate then dict_set f1 (str ''start_date'') (opt_val sdate) else f1)
          in if truthy_opt st \<and> the st \<notin> set valid_statuses then (False, self)
             else
               let update_fields = (if truthy_opt st then dict_set f2 (str ''status'') (opt_val st) else f2)
               in if update_fields = [] then (False, self)
                  else (case bind_exn (ObjectId tid) (\<lambda>oid. update_one w coll oid update_fields) of
                          Inl e \<Rightarrow> (False, self)
                        | Inr (modified_count, coll') \<Rightarrow>
                            (modified_count > 0, self\<lparr>db := Some coll'\<rparr>)))"

subsection \<open>delete_task\<close>

definition delete_task :: "world \<Rightarrow> MongoDBManager \<Rightarrow> pystr \<Rightarrow> bool \<times> MongoDBManager" where
  "delete_task w self tid =
     (case db self of
        None \<Rightarrow> (False, self)
      | Some coll \<Rightarrow>
          (case bind_exn (ObjectId tid) (\<lambda>oid. delete_one w coll oid) of
             Inl e \<Rightarrow> (False, self)
           | Inr (deleted_count, coll') \<Rightarrow> (deleted_count > 0, self\<lparr>db := Some coll'\<rparr>)))"

section \<open>The command interpreter (main.py)\<close>

subsection \<open>Whitespace and \<open>str.strip\<close>\<close>

text \<open>
  The code points for which \<open>str.isspace\<close> holds; the class \<open>\s\<close> of \<open>re\<close> on a \<open>str\<close>
  pattern is the same set.
\<close>

definition isspace :: "nat \<Rightarrow> bool" where
  "isspace c =
     ((9 \<le> c \<and> c \<le> 13) \<or> (28 \<le> c \<and> c \<le> 32) \<or> c = 133 \<or> c = 160 \<or> c = 5760
      \<or> (8192 \<le> c \<and> c \<le> 8202) \<or> c = 8232 \<or> c = 8233 \<or> c = 8239 \<or> c = 8287
      \<or> c = 12288)"

definition strip :: "pystr \<Rightarrow> pystr" where
  "strip s = rev (dropWhile isspace (rev (dropWhile isspace s)))"

subsection \<open>The regular expression of the fenced block\<close>

text \<open>
  \<open>re.search(r'```json\s*(.*?)\s*```', raw_text, re.DOTALL)\<close>, as the backtracking
  matcher runs it.  Each function is the pattern from one point on and yields group 1 of
  the first match the matcher finds, or \<open>None\<close>:
  \<^item> \<open>ws_fence\<close> is \<open>\s*```\<close>: \<open>\s*\<close> is greedy, so it takes a space when it can and
    tries the literal only when that fails;
  \<^item> \<open>lazy_group\<close> is \<open>(.*?)\s*```\<close>: the group is lazy, so it first tries to stop and
    takes one more character (any character, under \<open>DOTALL\<close>) only when that fails;
  \<^item> \<open>after_open\<close> is \<open>\s*(.*?)\s*```\<close>, with the greedy \<open>\s*\<close> giving spaces back;
  \<^item> \<open>match_here\<close> is the whole pattern at one position, and \<open>re_search\<close> tries the
    positions from left to right.
\<close>

definition fence :: pystr where
  "fence = str ''```''"

definition fence_json :: pystr where
  "fence_json = str ''```json''"

fun ws_fence :: "pystr \<Rightarrow> bool" where
  "ws_fence [] = False"
| "ws_fence (c # cs) = ((isspace c \<and> ws_fence cs) \<or> prefix fence (c # cs))"

fun lazy_group :: "pystr \<Rightarrow> pystr option" where
  "lazy_group [] = None"
| "lazy_group (c # cs) =
     (if ws_fence (c # cs) then Some [] else map_option ((#) c) (lazy_group cs))"

fun after_open :: "pystr \<Rightarrow> pystr option" where
  "after_open [] = lazy_group []"
| "after_open (c # cs) =
     (if isspace c
      then (case after_open cs of Some g \<Rightarrow> Some g | None \<Rightarrow> lazy_group (c # cs))
      else lazy_group (c # cs))"

definition match_here :: "pystr \<Rightarrow> pystr option" where
  "match_here s =
     (if prefix fence_json s then after_open (drop (length fence_json) s) else None)"

fun re_search :: "pystr \<Rightarrow> pystr option" where
  "re_search [] = match_here []"
| "re_search (c # cs) =
     (case match_here (c # cs) of Some g \<Rightarrow> Some g | None \<Rightarrow> re_search cs)"

definition json_string_to_parse :: "pystr \<Rightarrow> pystr" where
  "json_string_to_parse raw_text =
     (case re_search raw_text of Some g \<Rightarrow> strip g | None \<Rightarrow> strip raw_text)"

subsection \<open>The fenced block in the words of the specification\<close>

text \<open>
  The content between the first \<open>```json\<close> marker and the first \<open>```\<close> after it, if both
  exist; the JSON body is that content trimmed, and the whole text trimmed otherwise.
\<close>

fun find_sub :: "pystr \<Rightarrow> pystr \<Rightarrow> nat option" where
  "find_sub p [] = (if p = [] then Some 0 else None)"
| "find_sub p (c # cs) =
     (if prefix p (c # cs) then Some 0 else map_option Suc (find_sub p cs))"

definition fenced_content :: "pystr \<Rightarrow> pystr option" where
  "fenced_content s =
     (case find_sub fence_json s of
        None \<Rightarrow> None
      | Some i \<Rightarrow>
          let rest = drop (i + length fence_json) s
          in (case find_sub fence rest of None \<Rightarrow> None | Some j \<Rightarrow> Some (take j rest)))"

definition spec_json_body :: "pystr \<Rightarrow> pystr" where
  "spec_json_body s = (case fenced_content s of Some c \<Rightarrow> strip c | None \<Rightarrow> strip s)"

subsection \<open>The prompt\<close>

text \<open>
  \<open>str.format\<close> with keyword arguments, for a template whose replacement fields are
  plain names: \<open>{{\<close> and \<open>}}\<close> are braces, \<open>{name}\<close> is the argument of that name
  (\<open>KeyError\<close> without one), a lone brace is a \<open>ValueError\<close>.  The second argument is the
  name read so far inside a field.
\<close>

fun py_format :: "(pystr \<times> pystr) list \<Rightarrow> pystr option \<Rightarrow> pystr \<Rightarrow> exn + pystr" where
  "py_format kw None [] = Inr []"
| "py_format kw (Some name) [] = Inl ValueError"
| "py_format kw (Some name) (c # cs) =
     (if c = 125
      then (case dict_get kw name of
              None \<Rightarrow> Inl KeyError
            | Some v \<Rightarrow> bind_exn (py_format kw None cs) (\<lambda>r. Inr (v @ r)))
      else py_format kw (Some (name @ [c])) cs)"
| "py_format kw None (c # cs) =
     (if c = 123
      then (case cs of
              [] \<Rightarrow> Inl ValueError
            | c' # cs' \<Rightarrow>
                if c' = 123 then bind_exn (py_format kw None cs') (\<lambda>r. Inr (123 # r))
                else py_format kw (Some []) cs)
      else if c = 125
      then (case cs of
              [] \<Rightarrow> Inl ValueError
            | c' # cs' \<Rightarrow>
                if c' = 125 then bind_exn (py_format kw None cs') (\<lambda>r. Inr (125 # r))
                else Inl ValueError)
      else bind_exn (py_format kw None cs) (\<lambda>r. Inr (c # r)))"

fun join :: "pystr \<Rightarrow> pystr list \<Rightarrow> pystr" where
  "join sep [] = []"
| "join sep [x] = x"
| "join sep (x # y # ys) = x @ sep @ join sep (y # ys)"

definition prompt_template_lines :: "pystr list" where
  "prompt_template_lines = [
     str ''Eres un asistente de gesti'' @ [243] @ str ''n de tareas. Tu objetivo es interpretar los comandos del usuario y devolver UN OBJETO JSON que represente la acci'' @ [243] @ str ''n y los datos de la tarea. NO INCLUYAS NING'' @ [218] @ str ''N TEXTO ADICIONAL FUERA DEL JSON.'',
     str ''Las fechas deben estar en formato McClellan-MM-DD.'',
     str ''Los estados posibles de las tareas son: '' @ [34] @ str ''pending'' @ [34] @ str '', '' @ [34] @ str ''completed'' @ [34] @ str '', '' @ [34] @ str ''in_progress'' @ [34] @ str '', '' @ [34] @ str ''cancelled'' @ [34] @ str ''.'',
     [],
     str ''Si no puedes determinar una acci'' @ [243] @ str ''n clara, usa '' @ [34] @ str ''unknown'' @ [34] @ str '' para la acci'' @ [243] @ str ''n y proporciona un mensaje '' @ [250] @ str ''til en el campo '' @ [34] @ str ''message'' @ [34] @ str ''.'',
     [],
     str ''Ejemplos:'',
     str ''Comando de usuario: '' @ [39] @ str ''crear la tarea '' @ [34] @ str ''realizar app'' @ [34] @ str '' con fecha de inicio 03-07-2025 y estado '' @ [34] @ str ''pendiente'' @ [34, 39],
     str ''JSON esperado:'',
     str ''```json'',
     str ''{{'',
     str ''  '' @ [34] @ str ''action'' @ [34] @ str '': '' @ [34] @ str ''create'' @ [34] @ str '','',
     str ''  '' @ [34] @ str ''description'' @ [34] @ str '': '' @ [34] @ str ''realizar app'' @ [34] @ str '','',
     str ''  '' @ [34] @ str ''start_date'' @ [34] @ str '': '' @ [34] @ str ''2025-07-03'' @ [34] @ str '','',
     str ''  '' @ [34] @ str ''status'' @ [34] @ str '': '' @ [34] @ str ''pending'' @ [34],
     str ''}}'',
     str ''```'',
     [],
     str ''Comando de usuario: '' @ [39] @ str ''marcar tarea 60c7b41b1d7d8f9c7b4c3e21 como completada'' @ [39],
     str ''JSON esperado:'',
     str ''```json'',
     str ''{{'',
     str ''  '' @ [34] @ str ''action'' @ [34] @ str '': '' @ [34] @ str ''update'' @ [34] @ str '','',
     str ''  '' @ [34] @ str ''task_id'' @ [34] @ str '': '' @ [34] @ str ''60c7b41b1d7d8f9c7b4c3e21'' @ [34] @ str '','',
     str ''  '' @ [34] @ str ''status'' @ [34] @ str '': '' @ [34] @ str ''completed'' @ [34],
     str ''}}'',
     str ''```'',
     [],
     str ''Comando de usuario: '' @ [39] @ str ''actualizar la descripci'' @ [243] @ str ''n de la tarea 60c7b41b1d7d8f9c7b4c3e21 a '' @ [34] @ str ''Terminar informe'' @ [34, 39],
     str ''JSON esperado:'',
     str ''```json'',
     str ''{{'',
     str ''  '' @ [34] @ str ''action'' @ [34] @ str '': '' @ [34] @ str ''update'' @ [34] @ str '','',
     str ''  '' @ [34] @ str ''task_id'' @ [34] @ str '': '' @ [34] @ str ''60c7b41b1d7d8f9c7b4c3e21'' @ [34] @ str '','',
     str ''  '' @ [34] @ str ''description'' @ [34] @ str '': '' @ [34] @ str ''Terminar informe'' @ [34],
     str ''}}'',
     str ''```'',
     [],
     str ''Comando de usuario: '' @ [39] @ str ''eliminar tarea 60c7b41b1d7d8f9c7b4c3e21'' @ [39],
     str ''JSON esperado:'',
     str ''```json'',
     str ''{{'',
     str ''  '' @ [34] @ str ''action'' @ [34] @ str '': '' @ [34] @ str ''delete'' @ [34] @ str '','',
     str ''  '' @ [34] @ str ''task_id'' @ [34] @ str '': '' @ [34] @ str ''60c7b41b1d7d8f9c7b4c3e21'' @ [34],
     str ''}}'',
     str ''```'',
     [],
     str ''Comando de usuario: '' @ [39] @ str ''mostrar todas mis tareas'' @ [39],
     str ''JSON esperado:'',
     str ''```json'',
     str ''{{'',
     str ''  '' @ [34] @ str ''action'' @ [34] @ str '': '' @ [34] @ str ''read'' @ [34],
     str ''}}'',
     str ''```'',
     [],
     str ''Comando de usuario: '' @ [39, 191] @ str ''Qu'' @ [233] @ str '' tiempo hace hoy?'' @ [39],
     str ''JSON esperado:'',
     str ''```json'',
     str ''{{'',
     str ''  '' @ [34] @ str ''action'' @ [34] @ str '': '' @ [34] @ str ''unknown'' @ [34] @ str '','',
     str ''  '' @ [34] @ str ''message'' @ [34] @ str '': '' @ [34] @ str ''Lo siento, solo puedo gestionar tareas. '' @ [191] @ str ''Hay algo que pueda hacer con tus tareas?'' @ [34],
     str ''}}'',
     str ''```'',
     [],
     str ''Comando de usuario: '' @ [39] @ str ''{user_prompt}'' @ [39]]"

definition prompt_template :: pystr where
  "prompt_template = join [10] prompt_template_lines"

subsection \<open>Reading the response envelope\<close>

text \<open>
  The operations the code applies to the decoded response, each with the exception
  Python raises when the object is of the wrong type: \<open>x.get(k)\<close>, \<open>x[k]\<close> for a
  string \<open>k\<close>, \<open>x[0]\<close> and \<open>len(x)\<close>.
\<close>

definition py_get :: "pyval \<Rightarrow> pystr \<Rightarrow> exn + pyval" where
  "py_get x k =
     (case x of
        PDict d \<Rightarrow> Inr (case dict_get d k of None \<Rightarrow> PNone | Some v \<Rightarrow> v)
      | _ \<Rightarrow> Inl AttributeError)"

definition py_item :: "pyval \<Rightarrow> pystr \<Rightarrow> exn + pyval" where
  "py_item x k =
     (case x of
        PDict d \<Rightarrow> (case dict_get d k of None \<Rightarrow> Inl KeyError | Some v \<Rightarrow> Inr v)
      | _ \<Rightarrow> Inl TypeError)"

definition py_item0 :: "pyval \<Rightarrow> exn + pyval" where
  "py_item0 x =
     (case x of
        PList xs \<Rightarrow> (case xs of [] \<Rightarrow> Inl IndexError | v # _ \<Rightarrow> Inr v)
      | PStr s \<Rightarrow> (case s of [] \<Rightarrow> Inl IndexError | c # _ \<Rightarrow> Inr (PStr [c]))
      | PDict d \<Rightarrow> Inl KeyError
      | _ \<Rightarrow> Inl TypeError)"

definition py_len :: "pyval \<Rightarrow> exn + nat" where
  "py_len x =
     (case x of
        PList xs \<Rightarrow> Inr (length xs)
      | PStr s \<Rightarrow> Inr (length s)
      | PDict d \<Rightarrow> Inr (length d)
      | _ \<Rightarrow> Inl TypeError)"

text \<open>The condition of the \<open>if\<close> on the envelope; \<open>and\<close> stops at the first falsy operand.\<close>

definition has_generated_text :: "pyval \<Rightarrow> exn + bool" where
  "has_generated_text result =
     bind_exn (py_get result (str ''candidates'')) (\<lambda>c.
       if \<not> truthy c then Inr False else
     bind_exn (py_item result (str ''candidates'')) (\<lambda>cands.
     bind_exn (py_len cands) (\<lambda>n.
       if \<not> 0 < n then Inr False else
     bind_exn (py_item0 cands) (\<lambda>c0.
     bind_exn (py_get c0 (str ''content'')) (\<lambda>ct.
       if \<not> truthy ct then Inr False else
     bind_exn (py_item c0 (str ''content'')) (\<lambda>content.
     bind_exn (py_get content (str ''parts'')) (\<lambda>p.
       if \<not> truthy p then Inr False else
     bind_exn (py_item content (str ''parts'')) (\<lambda>parts.
     bind_exn (py_len parts) (\<lambda>n'. Inr (0 < n'))))))))))"

text \<open>\<open>result["candidates"][0]["content"]["parts"][0]["text"]\<close>\<close>

definition generated_text :: "pyval \<Rightarrow> exn + pyval" where
  "generated_text result =
     bind_exn (py_item result (str ''candidates'')) (\<lambda>cands.
     bind_exn (py_item0 cands) (\<lambda>c0.
     bind_exn (py_item c0 (str ''content'')) (\<lambda>content.
     bind_exn (py_item content (str ''parts'')) (\<lambda>parts.
     bind_exn (py_item0 parts) (\<lambda>p0.
     py_item p0 (str ''text''))))))"

subsection \<open>LLMCommand\<close>

text \<open>
  At run time the fields of the pydantic model are strings or \<open>None\<close>; the \<open>Literal\<close>
  types of \<open>action\<close> and \<open>status\<close> are what validation enforces.
\<close>

record LLMCommand =
  action :: pystr
  task_id :: "pystr option"
  description :: "pystr option"
  start_date :: "pystr option"
  status :: "pystr option"
  message :: "pystr option"

definition valid_actions :: "pystr list" where
  "valid_actions = [str ''create'', str ''read'', str ''update'', str ''delete'', str ''unknown'']"

text \<open>What the type \<open>LLMCommand\<close> promises of a value.\<close>

definition well_formed :: "LLMCommand \<Rightarrow> bool" where
  "well_formed c =
     (action c \<in> set valid_actions
      \<and> (case status c of None \<Rightarrow> True | Some s \<Rightarrow> s \<in> set valid_statuses))"

text \<open>Validation of one field: a \<open>Literal\<close>, an optional \<open>Literal\<close>, an optional \<open>str\<close>.\<close>

definition literal_field :: "pystr list \<Rightarrow> pyval \<Rightarrow> exn + pystr" where
  "literal_field choices v =
     (case v of
        PStr s \<Rightarrow> if s \<in> set choices then Inr s else Inl ValidationError
      | _ \<Rightarrow> Inl ValidationError)"

definition optional_literal_field :: "pystr list \<Rightarrow> pyval option \<Rightarrow> exn + pystr option" where
  "optional_literal_field choices x =
     (case x of
        None \<Rightarrow> Inr None
      | Some PNone \<Rightarrow> Inr None
      | Some v \<Rightarrow> bind_exn (literal_field choices v) (\<lambda>s. Inr (Some s)))"

definition optional_str_field :: "world \<Rightarrow> pyval option \<Rightarrow> exn + pystr option" where
  "optional_str_field w x =
     (case x of
        None \<Rightarrow> Inr None
      | Some PNone \<Rightarrow> Inr None
      | Some (PStr s) \<Rightarrow> Inr (Some s)
      | Some v \<Rightarrow> bind_exn (str_validator w v) (\<lambda>s. Inr (Some s)))"

text \<open>\<open>LLMCommand(**kwargs)\<close>: keys that are not fields are ignored.\<close>

definition LLMCommand_init :: "world \<Rightarrow> (pystr \<times> pyval) list \<Rightarrow> exn + LLMCommand" where
  "LLMCommand_init w kwargs =
     (case dict_get kwargs (str ''action'') of
        None \<Rightarrow> Inl ValidationError
      | Some a \<Rightarrow>
          bind_exn (literal_field valid_actions a) (\<lambda>act.
          bind_exn (optional_str_field w (dict_get kwargs (str ''task_id''))) (\<lambda>tid.
          bind_exn (optional_str_field w (dict_get kwargs (str ''description''))) (\<lambda>descr.
          bind_exn (optional_str_field w (dict_get kwargs (str ''start_date''))) (\<lambda>sdate.
          bind_exn (optional_literal_field valid_statuses (dict_get kwargs (str ''status''))) (\<lambda>st.
          bind_exn (optional_str_field w (dict_get kwargs (str ''message''))) (\<lambda>msg.
            Inr \<lparr>action = act, task_id = tid, description = descr, start_date = sdate,
                 status = st, message = msg\<rparr>)))))))"

text \<open>\<open>LLMCommand(action="unknown", message=msg)\<close>\<close>

definition unknown_command :: "pystr \<Rightarrow> LLMCommand" where
  "unknown_command msg =
     \<lparr>action = str ''unknown'', task_id = None, description = None, start_date = None,
      status = None, message = Some msg\<rparr>"

subsection \<open>call_llm_for_command\<close>

text \<open>\<open>re.sub(r'[^\w]', '', k).strip()\<close>\<close>

definition is_word :: "world \<Rightarrow> nat \<Rightarrow> bool" where
  "is_word w c =
     (if c < 128
      then ((48 \<le> c \<and> c \<le> 57) \<or> (65 \<le> c \<and> c \<le> 90) \<or> (97 \<le> c \<and> c \<le> 122) \<or> c = 95)
      else unicode_alnum w c)"

definition clean_key :: "world \<Rightarrow> pystr \<Rightarrow> pystr" where
  "clean_key w k = strip (filter (is_word w) k)"

definition clean_keys :: "world \<Rightarrow> (pystr \<times> pyval) list \<Rightarrow> (pystr \<times> pyval) list" where
  "clean_keys w parsed_json = fold (\<lambda>(k, v) acc. dict_set acc (clean_key w k) v) parsed_json []"

text \<open>Decimal digits of a status code.\<close>

fun decimal :: "nat \<Rightarrow> pystr" where
  "decimal n = (if n < 10 then [48 + n] else decimal (n div 10) @ [48 + n mod 10])"

declare decimal.simps [simp del]

definition msg_no_action :: pystr where
  "msg_no_action = str ''No pude determinar la acci'' @ [243] @ str ''n del LLM. Por favor, s'' @ [233] @ str '' m'' @ [225] @ str ''s espec'' @ [237] @ str ''fico.''"

definition msg_invalid_action :: "pystr \<Rightarrow> pystr" where
  "msg_invalid_action a = str ''La acci'' @ [243] @ str ''n '' @ [39] @ a @ [39] @ str '' no es v'' @ [225] @ str ''lida. Por favor, s'' @ [233] @ str '' m'' @ [225] @ str ''s espec'' @ [237] @ str ''fico.''"

definition msg_invalid_json :: pystr where
  "msg_invalid_json = str ''El LLM devolvi'' @ [243] @ str '' un formato JSON inv'' @ [225] @ str ''lido. Int'' @ [233] @ str ''ntalo de nuevo.''"

definition msg_no_candidates :: pystr where
  "msg_no_candidates = str ''No pude interpretar tu comando. Int'' @ [233] @ str ''ntalo de nuevo.''"

definition msg_http_status :: "nat \<Rightarrow> pystr" where
  "msg_http_status code = str ''Error del servidor al procesar tu comando: '' @ decimal code @ str ''.''"

definition msg_unexpected :: pystr where
  "msg_unexpected = str ''Ocurri'' @ [243] @ str '' un error inesperado al procesar tu comando.''"

definition msg_no_api_key :: pystr where
  "msg_no_api_key = str ''Error de configuraci'' @ [243] @ str ''n: Clave API no encontrada.''"

text \<open>
  The statements of the inner \<open>try\<close> from \<open>json.loads\<close> on; the result is the command
  returned, or the exception raised there.
\<close>

definition parse_command :: "world \<Rightarrow> pystr \<Rightarrow> exn + LLMCommand" where
  "parse_command w json_string =
     bind_exn (json_loads w json_string) (\<lambda>parsed_json.
       case parsed_json of
         PDict kvs \<Rightarrow>
           let clean_parsed_json = clean_keys w kvs;
               action_value = (case dict_get clean_parsed_json (str ''action'') of
                                 None \<Rightarrow> PNone | Some v \<Rightarrow> v)
           in if action_value = PNone then Inr (unknown_command msg_no_action)
              else if \<not> in_list action_value valid_actions
              then Inr (unknown_command (msg_invalid_action (py_str w action_value)))
              else LLMCommand_init w clean_parsed_json
       | _ \<Rightarrow> Inl AttributeError)"

text \<open>The body of the outer \<open>try\<close>, with the inner handler for \<open>JSONDecodeError\<close>.\<close>

definition interpret_response :: "world \<Rightarrow> pystr \<Rightarrow> pystr \<Rightarrow> exn + LLMCommand" where
  "interpret_response w api_key formatted_prompt =
     bind_exn (llm_call w api_key formatted_prompt) (\<lambda>result.
     bind_exn (has_generated_text result) (\<lambda>ok.
       if ok
       then bind_exn (generated_text result) (\<lambda>raw_text.
              case raw_text of
                PStr s \<Rightarrow>
                  (case parse_command w (json_string_to_parse s) of
                     Inl JSONDecodeError \<Rightarrow> Inr (unknown_command msg_invalid_json)
                   | r \<Rightarrow> r)
              | _ \<Rightarrow> Inl TypeError)
       else Inr (unknown_command msg_no_candidates)))"

text \<open>
  The whole function.  The prompt is formatted and the key read before the outer \<open>try\<close>,
  so an exception there would reach the caller: the result is a sum.
\<close>

definition call_llm_for_command :: "world \<Rightarrow> pyval \<Rightarrow> exn + LLMCommand" where
  "call_llm_for_command w user_prompt =
     bind_exn (py_format [(str ''user_prompt'', py_str w user_prompt)] None prompt_template)
       (\<lambda>formatted_prompt.
          let api_key = (case GEMINI_API_KEY w of None \<Rightarrow> [] | Some k \<Rightarrow> k)
          in if api_key = [] then Inr (unknown_command msg_no_api_key)
             else (case interpret_response w api_key formatted_prompt of
                     Inl (HTTPStatusError code) \<Rightarrow> Inr (unknown_command (msg_http_status code))
                   | Inl e \<Rightarrow> Inr (unknown_command msg_unexpected)
                   | Inr c \<Rightarrow> Inr c))"

section \<open>The endpoint POST /command (main.py)\<close>

text \<open>
  What leaves the endpoint other than its response: the \<open>HTTPException\<close> it raises itself,
  with status and detail, or an exception nothing handles.
\<close>

datatype failure = HTTPException nat pystr | Unhandled exn

text \<open>\<open>action_result\<close> is a Python dict and is modelled as one.\<close>

type_synonym result_dict = "(pystr \<times> pyval) list"

definition error_result :: "pystr \<Rightarrow> result_dict" where
  "error_result msg = [(str ''status'', PStr (str ''error'')), (str ''message'', PStr msg)]"

definition msg_no_db :: pystr where
  "msg_no_db = str ''Error de base de datos: Conexi'' @ [243] @ str ''n no establecida.''"

definition msg_need_description :: pystr where
  "msg_need_description = str ''Para crear una tarea, necesito una descripci'' @ [243] @ str ''n.''"

definition msg_created :: "pystr \<Rightarrow> pystr \<Rightarrow> pystr" where
  "msg_created descr tid = str ''Tarea '' @ [39] @ descr @ [39] @ str '' creada con ID: '' @ tid"

definition msg_listing :: pystr where
  "msg_listing = str ''Listando todas las tareas.''"

definition msg_update_needs_id :: pystr where
  "msg_update_needs_id = str ''Para actualizar una tarea, necesito el ID de la tarea.''"

definition msg_update_needs_field :: pystr where
  "msg_update_needs_field = str ''Para actualizar, necesito al menos una descripci'' @ [243] @ str ''n, fecha o estado.''"

definition msg_updated :: "pystr \<Rightarrow> pystr" where
  "msg_updated tid = str ''Tarea '' @ tid @ str '' actualizada correctamente.''"

definition msg_update_failed :: "pystr \<Rightarrow> pystr" where
  "msg_update_failed tid = str ''No se pudo actualizar la tarea '' @ tid @ str ''. '' @ [191] @ str ''El ID es correcto?''"

definition msg_delete_needs_id :: pystr where
  "msg_delete_needs_id = str ''Para eliminar una tarea, necesito el ID de la tarea.''"

definition msg_deleted :: "pystr \<Rightarrow> pystr" where
  "msg_deleted tid = str ''Tarea '' @ tid @ str '' eliminada correctamente.''"

definition msg_delete_failed :: "pystr \<Rightarrow> pystr" where
  "msg_delete_failed tid = str ''No se pudo eliminar la tarea '' @ tid @ str ''. '' @ [191] @ str ''El ID es correcto?''"

definition msg_not_understood :: pystr where
  "msg_not_understood = str ''No pude entender tu comando. Por favor, s'' @ [233] @ str '' m'' @ [225] @ str ''s espec'' @ [237] @ str ''fico.''"

definition msg_not_recognized :: pystr where
  "msg_not_recognized = str ''Acci'' @ [243] @ str ''n no reconocida por el sistema.''"

definition msg_command_required :: pystr where
  "msg_command_required = str ''El campo '' @ [39] @ str ''command'' @ [39] @ str '' es requerido.''"

text \<open>
  Step 2 of \<open>process_command\<close>: the chain of \<open>if\<close>/\<open>elif\<close> on the interpreted command.
  \<open>db_manager\<close> is the module's global, \<open>None\<close> when the manager could not be built.
\<close>

definition execute_action ::
  "world \<Rightarrow> MongoDBManager option \<Rightarrow> LLMCommand \<Rightarrow> result_dict \<times> MongoDBManager option" where
  "execute_action w db_manager llm_response =
     (let action_result = [(str ''status'', PStr (str ''success'')),
                           (str ''message'', PStr (str ''Comando procesado.''))]
      in case db_manager of
           None \<Rightarrow> (error_result msg_no_db, db_manager)
         | Some m \<Rightarrow>
             if action llm_response = str ''create'' then
               (if \<not> truthy_opt (description llm_response)
                then (error_result msg_need_description, db_manager)
                else (case add_task w m (the (description llm_response))
                             (start_date llm_response) (status llm_response) of
                        (tid, m') \<Rightarrow>
                          (dict_set
                             (dict_set action_result (str ''message'')
                                (PStr (msg_created (the (description llm_response))
                                         (py_str w (opt_val tid)))))
                             (str ''task_id'') (opt_val tid),
                           Some m')))
             else if action llm_response = str ''read'' then
               (dict_set action_result (str ''message'') (PStr msg_listing), db_manager)
             else if action llm_response = str ''update'' then
               (if \<not> truthy_opt (task_id llm_response)
                then (error_result msg_update_needs_id, db_manager)
                else if \<not> (truthy_opt (description llm_response)
                           \<or> truthy_opt (start_date llm_response)
                           \<or> truthy_opt (status llm_response))
                then (error_result msg_update_needs_field, db_manager)
                else (case update_task w m (the (task_id llm_response))
                             (description llm_response) (start_date llm_response)
                             (status llm_response) of
                        (success, m') \<Rightarrow>
                          (if success
                           then dict_set action_result (str ''message'')
                                  (PStr (msg_updated (the (task_id llm_response))))
                           else error_result (msg_update_failed (the (task_id llm_response))),
                           Some m')))
             else if action llm_response = str ''delete'' then
               (if \<not> truthy_opt (task_id llm_response)
                then (error_result msg_delete_needs_id, db_manager)
                else (case delete_task w m (the (task_id llm_response)) of
                        (success, m') \<Rightarrow>
                          (if success
                           then dict_set action_result (str ''message'')
                                  (PStr (msg_deleted (the (task_id llm_response))))
                           else error_result (msg_delete_failed (the (task_id llm_response))),
                           Some m')))
             else if action llm_response = str ''unknown'' then
               ([(str ''status'', PStr (str ''info'')),
                 (str ''message'',
                  PStr (if truthy_opt (message llm_response) then the (message llm_response)
                        else msg_not_understood))],
                db_manager)
             else (error_result msg_not_recognized, db_manager))"

text \<open>
  The endpoint on the decoded request body.  The response pairs \<open>llm_interpretation\<close>
  with \<open>action_result\<close>.
\<close>

definition process_command ::
  "world \<Rightarrow> MongoDBManager option \<Rightarrow> pyval
     \<Rightarrow> (failure + LLMCommand \<times> result_dict) \<times> MongoDBManager option" where
  "process_command w db_manager data =
     (case py_get data (str ''command'') of
        Inl e \<Rightarrow> (Inl (Unhandled e), db_manager)
      | Inr user_input \<Rightarrow>
          if \<not> truthy user_input
          then (Inl (HTTPException 400 msg_command_required), db_manager)
          else (case call_llm_for_command w user_input of
                  Inl e \<Rightarrow> (Inl (Unhandled e), db_manager)
                | Inr llm_response \<Rightarrow>
                    (case execute_action w db_manager llm_response of
                       (action_result, db_manager') \<Rightarrow>
                         (Inr (llm_response, action_result), db_manager'))))"

section \<open>Example inputs and auxiliary notions\<close>

subsection \<open>Example inputs\<close>

text \<open>
  A world in which the model service answers every prompt with a well-formed envelope
  around a given text, \<open>json.loads\<close> knows the two bodies used below, the store driver
  works, and the clock stands at 2025-07-03T09:30:00; a \<open>create\<close> command without a
  status; and a stored task with a given \<open>status\<close> value.
\<close>

definition example_clock :: datetime where
  "example_clock = \<lparr>year = 2025, month = 7, day = 3, hour = 9, minute = 30, second = 0, microsecond = 0\<rparr>"

definition example_envelope :: "pystr \<Rightarrow> pyval" where
  "example_envelope raw_text =
     PDict [(str ''candidates'',
             PList [PDict [(str ''content'',
                            PDict [(str ''parts'', PList [PDict [(str ''text'', PStr raw_text)]])])]])]"

definition example_loads :: "pystr \<Rightarrow> exn + pyval" where
  "example_loads s =
     (if s = str ''{'' @ [34] @ str ''action'' @ [34] @ str '': '' @ [34] @ str ''fly'' @ [34] @ str ''}''
      then Inr (PDict [(str ''action'', PStr (str ''fly''))])
      else if s = str ''{'' @ [34] @ str ''task'' @ [34] @ str '': 1}''
      then Inr (PDict [(str ''task'', PInt 1)])
      else Inl JSONDecodeError)"

definition example_world :: "pystr \<Rightarrow> world" where
  "example_world raw_text =
     \<lparr>GEMINI_API_KEY = Some (str ''secret''),
      llm_call = (\<lambda>k p. Inr (example_envelope raw_text)),
      json_loads = example_loads,
      str_validator = (\<lambda>v. Inl ValidationError),
      unicode_alnum = (\<lambda>c. False),
      str_other = (\<lambda>v. str ''?''),
      driver_fault = None,
      new_oid = str ''60c7b41b1d7d8f9c7b4c3e21'',
      clock = example_clock\<rparr>"

definition example_text_fly :: pystr where
  "example_text_fly = str ''Claro: ```json'' @ [10] @ str ''{'' @ [34] @ str ''action'' @ [34] @ str '': '' @ [34] @ str ''fly'' @ [34] @ str ''}'' @ [10] @ str ''``` listo''"


definition example_create_command :: LLMCommand where
  "example_create_command =
     \<lparr>action = str ''create'', task_id = None, description = Some (str ''comprar pan''),
      start_date = None, status = None, message = None\<rparr>"

definition example_task :: "pyval \<Rightarrow> document" where
  "example_task st =
     [(str ''_id'', PObjectId (str ''60c7b41b1d7d8f9c7b4c3e21'')),
      (str ''description'', PStr (str ''comprar pan'')),
      (str ''created_at'', PDatetime example_clock),
      (str ''status'', st)]"

subsection \<open>Notions used in the statements and proofs\<close>

text \<open>
  \<open>rstrip\<close> is the right half of \<open>strip\<close>.  \<open>formats kw l\<close> says that \<open>str.format\<close>
  accepts the template \<open>l\<close>.  \<open>failure_report c\<close> says that \<open>c\<close> is one of the commands
  \<open>call_llm_for_command\<close> builds itself: \<open>LLMCommand(action="unknown", message=m)\<close> with
  \<open>m\<close> one of its seven messages.
\<close>

definition rstrip :: "pystr \<Rightarrow> pystr" where
  "rstrip s = rev (dropWhile isspace (rev s))"

definition formats :: "(pystr \<times> pystr) list \<Rightarrow> pystr \<Rightarrow> bool" where
  "formats kw l = (\<exists>r. py_format kw None l = Inr r)"

definition failure_report :: "LLMCommand \<Rightarrow> bool" where
  "failure_report c =
     (\<exists>m. c = unknown_command m \<and>
        (m = msg_no_api_key \<or> m = msg_unexpected \<or> m = msg_invalid_json
         \<or> m = msg_no_candidates \<or> m = msg_no_action
         \<or> (\<exists>code. m = msg_http_status code) \<or> (\<exists>a. m = msg_invalid_action a)))"

section \<open>Basic facts\<close>

section \<open>The regular expression finds the first fenced block\<close>

lemma fence_eq: "fence = [96, 96, 96]"
  by (simp add: fence_def str_def)

lemma fence_json_eq: "fence_json = [96, 96, 96, 106, 115, 111, 110]"
  by (simp add: fence_json_def str_def)

lemma not_isspace_backtick: "\<not> isspace 96"
  by (simp add: isspace_def)

lemma prefix_fence_not_space: "prefix fence (c # cs) \<Longrightarrow> \<not> isspace c"
  by (auto simp: fence_eq not_isspace_backtick)

lemma ws_fence_iff: "ws_fence s \<longleftrightarrow> prefix fence (dropWhile isspace s)"
proof (induction s)
  case Nil
  then show ?case by (simp add: fence_eq)
next
  case (Cons c cs)
  then show ?case using prefix_fence_not_space [of c cs] by auto
qed

lemma rstrip_Nil: "rstrip [] = []" by (simp add: rstrip_def)

lemma rstrip_Cons: "rstrip (x # t) = (if isspace x \<and> list_all isspace t then [] else x # rstrip t)"
  by (auto simp: rstrip_def dropWhile_append list_all_iff)

lemma rstrip_all_space: "list_all isspace t \<Longrightarrow> rstrip t = []"
  by (simp add: rstrip_def list_all_iff)

lemma strip_rstrip: "strip s = rstrip (dropWhile isspace s)"
  by (simp add: strip_def rstrip_def)

lemma find_sub_Nil: "find_sub fence [] = None"
  by (simp add: fence_eq)

lemma find_sub_spaces: "isspace c \<Longrightarrow> find_sub fence (c # cs) = map_option Suc (find_sub fence cs)"
  using prefix_fence_not_space [of c cs] by auto

lemma find_sub_ws_fence:
  "ws_fence s \<Longrightarrow> \<exists>j. find_sub fence s = Some j \<and> list_all isspace (take j s)"
proof (induction s)
  case Nil then show ?case by simp
next
  case (Cons c cs)
  show ?case
  proof (cases "prefix fence (c # cs)")
    case True then show ?thesis by simp
  next
    case False
    with Cons.prems have sp: "isspace c" and w: "ws_fence cs" by auto
    from Cons.IH [OF w] obtain j where "find_sub fence cs = Some j" "list_all isspace (take j cs)" by blast
    with sp False show ?thesis by simp
  qed
qed

lemma find_sub_take_ws:
  "find_sub fence s = Some j \<Longrightarrow> list_all isspace (take j s) \<Longrightarrow> ws_fence s"
proof (induction s arbitrary: j)
  case Nil then show ?case by (simp add: fence_eq)
next
  case (Cons c cs)
  show ?case
  proof (cases "prefix fence (c # cs)")
    case True then show ?thesis by simp
  next
    case False
    with Cons.prems(1) obtain j' where j': "find_sub fence cs = Some j'" "j = Suc j'" by auto
    with Cons.prems(2) have "isspace c" "list_all isspace (take j' cs)" by auto
    with Cons.IH j' show ?thesis by auto
  qed
qed

lemma lazy_group_eq:
  "lazy_group s = (case find_sub fence s of None \<Rightarrow> None | Some j \<Rightarrow> Some (rstrip (take j s)))"
proof (induction s)
  case Nil
  then show ?case by (simp add: fence_eq)
next
  case (Cons c cs)
  show ?case
  proof (cases "ws_fence (c # cs)")
    case True
    from find_sub_ws_fence [OF True] obtain j where
      "find_sub fence (c # cs) = Some j" "list_all isspace (take j (c # cs))" by blast
    with True show ?thesis by (simp add: rstrip_all_space del: find_sub.simps ws_fence.simps)
  next
    case False
    then have np: "\<not> prefix fence (c # cs)" by auto
    show ?thesis
    proof (cases "find_sub fence cs")
      case None
      with False np Cons.IH show ?thesis by simp
    next
      case (Some j)
      have "\<not> (isspace c \<and> list_all isspace (take j cs))"
      proof
        assume a: "isspace c \<and> list_all isspace (take j cs)"
        have "find_sub fence (c # cs) = Some (Suc j)" using np Some by simp
        moreover have "list_all isspace (take (Suc j) (c # cs))" using a by simp
        ultimately have "ws_fence (c # cs)" by (rule find_sub_take_ws)
        with False show False by simp
      qed
      with False np Some Cons.IH show ?thesis by (simp add: rstrip_Cons)
    qed
  qed
qed

lemma after_open_eq:
  "after_open s = (case find_sub fence s of None \<Rightarrow> None | Some j \<Rightarrow> Some (strip (take j s)))"
proof (induction s)
  case Nil
  then show ?case by (simp add: fence_eq)
next
  case (Cons c cs)
  show ?case
  proof (cases "isspace c")
    case False
    then show ?thesis
      by (cases "find_sub fence (c # cs)") (auto simp: lazy_group_eq strip_rstrip split: if_splits option.splits)
  next
    case True
    then have np: "\<not> prefix fence (c # cs)" using prefix_fence_not_space by blast
    show ?thesis
    proof (cases "find_sub fence cs")
      case None
      with True np Cons.IH show ?thesis by (simp add: lazy_group_eq del: lazy_group.simps)
    next
      case (Some j)
      with True np Cons.IH show ?thesis by (simp add: strip_rstrip)
    qed
  qed
qed

lemma find_sub_None_drop: "find_sub p s = None \<Longrightarrow> find_sub p (drop n s) = None"
proof (induction s arbitrary: n)
  case Nil then show ?case by simp
next
  case (Cons c cs)
  then show ?case by (cases n) (auto split: if_splits)
qed

lemma fenced_content_Cons_no:
  "\<not> prefix fence_json (c # cs) \<Longrightarrow> fenced_content (c # cs) = fenced_content cs"
  by (cases "find_sub fence_json cs") (simp_all add: fenced_content_def)

lemma re_search_eq: "re_search s = map_option strip (fenced_content s)"
proof (induction s)
  case Nil
  then show ?case by (simp add: match_here_def fenced_content_def fence_json_eq)
next
  case (Cons c cs)
  show ?case
  proof (cases "prefix fence_json (c # cs)")
    case False
    with Cons.IH show ?thesis by (simp add: match_here_def fenced_content_Cons_no)
  next
    case True
    let ?rest = "drop (length fence_json) (c # cs)"
    show ?thesis
    proof (cases "find_sub fence ?rest")
      case (Some j)
      with True show ?thesis by (simp add: match_here_def after_open_eq fenced_content_def)
    next
      case None
      have a: "fenced_content (c # cs) = None" using True None by (simp add: fenced_content_def)
      have b: "fenced_content cs = None"
      proof (cases "find_sub fence_json cs")
        case None then show ?thesis by (simp add: fenced_content_def)
      next
        case (Some i)
        have "drop (i + length fence_json) cs = drop (Suc i) ?rest"
          by (simp add: fence_json_eq)
        with None have "find_sub fence (drop (i + length fence_json) cs) = None"
          by (simp only: find_sub_None_drop)
        with Some show ?thesis by (simp add: fenced_content_def)
      qed
      from True None a b Cons.IH show ?thesis by (simp add: match_here_def after_open_eq)
    qed
  qed
qed

lemma strip_idem: "strip (strip s) = strip s"
proof -
  have "dropWhile isspace (rstrip u) = rstrip u" if "u = [] \<or> \<not> isspace (hd u)" for u
  proof (cases u)
    case Nil then show ?thesis by (simp add: rstrip_Nil)
  next
    case (Cons x t)
    with that show ?thesis by (simp add: rstrip_Cons)
  qed
  moreover have "dropWhile isspace s = [] \<or> \<not> isspace (hd (dropWhile isspace s))"
    by (metis hd_dropWhile)
  moreover have "rstrip (rstrip u) = rstrip u" for u
    by (simp add: rstrip_def)
  ultimately show ?thesis by (simp add: strip_rstrip)
qed

section \<open>Formatting the prompt never fails\<close>

lemma bind_exn_Inr [simp]: "bind_exn (Inr x) f = f x" by (simp add: bind_exn_def)

lemma bind_exn_Inl [simp]: "bind_exn (Inl e) f = Inl e" by (simp add: bind_exn_def)

lemma bind_exn_eq_Inr: "bind_exn m f = Inr y \<longleftrightarrow> (\<exists>x. m = Inr x \<and> f x = Inr y)"
  by (cases m) simp_all

lemma py_format_append:
  "py_format kw st a = Inr r \<Longrightarrow>
   py_format kw st (a @ b) = bind_exn (py_format kw None b) (\<lambda>r'. Inr (r @ r'))"
proof (induction kw st a arbitrary: r rule: py_format.induct)
  case (1 kw)
  then show ?case by (cases "py_format kw None b") simp_all
next
  case (2 kw name)
  then show ?case by simp
next
  case (3 kw name c cs)
  show ?case
  proof (cases "c = 125")
    case False
    with 3 show ?thesis by simp
  next
    case True
    with "3.prems" obtain v r0 where v: "dict_get kw name = Some v"
      and r0: "py_format kw None cs = Inr r0" and r: "r = v @ r0"
      by (auto simp: bind_exn_eq_Inr split: option.splits)
    from "3.IH"(1) [OF True v r0] True v r show ?thesis
      by (cases "py_format kw None b") simp_all
  qed
next
  case (4 kw c cs)
  show ?case
  proof (cases "c = 123")
    case c: True
    show ?thesis
    proof (cases cs)
      case Nil with c "4.prems" show ?thesis by simp
    next
      case (Cons c' cs')
      show ?thesis
      proof (cases "c' = 123")
        case True
        with c Cons "4.prems" obtain r0 where r0: "py_format kw None cs' = Inr r0" and r: "r = 123 # r0"
          by (auto simp: bind_exn_eq_Inr)
        from "4.IH"(1) [OF c Cons True r0] c Cons True r show ?thesis
          by (cases "py_format kw None b") simp_all
      next
        case False
        with c Cons "4.prems" have p: "py_format kw (Some []) cs = Inr r" by simp
        from "4.IH"(2) [OF c Cons False p] c Cons False show ?thesis by simp
      qed
    qed
  next
    case nc: False
    show ?thesis
    proof (cases "c = 125")
      case c: True
      show ?thesis
      proof (cases cs)
        case Nil with nc c "4.prems" show ?thesis by simp
      next
        case (Cons c' cs')
        show ?thesis
        proof (cases "c' = 125")
          case True
          with nc c Cons "4.prems" obtain r0 where r0: "py_format kw None cs' = Inr r0" and r: "r = 125 # r0"
            by (auto simp: bind_exn_eq_Inr)
          from "4.IH"(3) [OF nc c Cons True r0] nc c Cons True r show ?thesis
            by (cases "py_format kw None b") simp_all
        next
          case False
          with nc c Cons "4.prems" show ?thesis by simp
        qed
      qed
    next
      case False
      with nc "4.prems" obtain r0 where r0: "py_format kw None cs = Inr r0" and r: "r = c # r0"
        by (auto simp: bind_exn_eq_Inr)
      from "4.IH"(4) [OF nc False r0] nc False r show ?thesis
        by (cases "py_format kw None b") simp_all
    qed
  qed
qed

lemma py_format_literal:
  "list_all (\<lambda>c. c \<noteq> 123 \<and> c \<noteq> 125) a \<Longrightarrow> py_format kw None a = Inr a"
  by (induction a) simp_all

lemma formats_append: "formats kw a \<Longrightarrow> formats kw b \<Longrightarrow> formats kw (a @ b)"
  unfolding formats_def using py_format_append [of kw None a _ b] by auto

lemma formats_join:
  "formats kw sep \<Longrightarrow> list_all (formats kw) ls \<Longrightarrow> formats kw (join sep ls)"
proof (induction sep ls rule: join.induct)
  case (1 sep) then show ?case by (simp add: formats_def)
next
  case (2 sep x) then show ?case by simp
next
  case (3 sep x y ys)
  then show ?case by (simp add: formats_append)
qed

lemma formats_literal: "list_all (\<lambda>c. c \<noteq> 123 \<and> c \<noteq> 125) a \<Longrightarrow> formats kw a"
  by (simp add: formats_def py_format_literal)

lemma formats_open: "formats kw (str ''{{'')"
  by (simp add: formats_def str_def)

lemma formats_close: "formats kw (str ''}}'')"
  by (simp add: formats_def str_def)

lemma formats_field: "formats [(str ''user_prompt'', x)] (str ''{user_prompt}'')"
  by (simp add: formats_def str_def dict_get_def)

lemma formats_Cons: "c \<noteq> 123 \<Longrightarrow> c \<noteq> 125 \<Longrightarrow> formats kw cs \<Longrightarrow> formats kw (c # cs)"
  by (auto simp: formats_def)

lemma list_all_str: "list_all P (str s) = list_all (\<lambda>c. P (of_char c)) s"
  by (simp add: str_def list_all_iff)

lemma format_lines: "list_all (formats [(str ''user_prompt'', x)]) prompt_template_lines"
  unfolding prompt_template_lines_def
  by (simp add: formats_open formats_close formats_field formats_append formats_literal formats_Cons list_all_str)

lemma format_ok: "\<exists>r. py_format [(str ''user_prompt'', x)] None prompt_template = Inr r"
  using formats_join [OF formats_literal format_lines, of "[10]"]
  by (simp add: prompt_template_def formats_def)

section \<open>The results of the interpreter\<close>

lemma unknown_command_well_formed: "well_formed (unknown_command m)"
  by (simp add: well_formed_def unknown_command_def valid_actions_def)

lemma literal_field_mem: "literal_field choices v = Inr s \<Longrightarrow> s \<in> set choices"
  by (auto simp: literal_field_def split: pyval.splits if_splits)

lemma optional_literal_field_mem:
  "optional_literal_field choices x = Inr (Some s) \<Longrightarrow> s \<in> set choices"
  by (auto simp: optional_literal_field_def bind_exn_eq_Inr dest: literal_field_mem
           split: option.splits pyval.splits)

lemma LLMCommand_init_well_formed:
  assumes "LLMCommand_init w kwargs = Inr c"
  shows "well_formed c"
proof -
  from assms obtain a act st where
    "literal_field valid_actions a = Inr act"
    "optional_literal_field valid_statuses (dict_get kwargs (str ''status'')) = Inr st"
    "action c = act" "status c = st"
    by (auto simp: LLMCommand_init_def bind_exn_eq_Inr split: option.splits)
  then show ?thesis
    by (cases st) (auto simp: well_formed_def dest: literal_field_mem optional_literal_field_mem)
qed

lemma parse_command_cases:
  assumes "parse_command w js = Inr c"
  shows "(\<exists>kwargs. LLMCommand_init w kwargs = Inr c) \<or> failure_report c"
proof -
  from assms obtain pj where pj: "json_loads w js = Inr pj"
    by (cases "json_loads w js") (simp_all add: parse_command_def)
  from assms pj obtain kvs where kvs: "pj = PDict kvs"
    by (cases pj) (simp_all add: parse_command_def)
  let ?clean = "clean_keys w kvs"
  let ?av = "case dict_get ?clean (str ''action'') of None \<Rightarrow> PNone | Some v \<Rightarrow> v"
  show ?thesis
  proof (cases "?av = PNone")
    case True
    with assms pj kvs have "c = unknown_command msg_no_action"
      by (simp add: parse_command_def Let_def)
    then show ?thesis by (auto simp: failure_report_def)
  next
    case n: False
    show ?thesis
    proof (cases "in_list ?av valid_actions")
      case False
      with n assms pj kvs have "c = unknown_command (msg_invalid_action (py_str w ?av))"
        by (simp add: parse_command_def Let_def)
      then show ?thesis unfolding failure_report_def by blast
    next
      case True
      with n assms pj kvs have "LLMCommand_init w ?clean = Inr c"
        by (simp add: parse_command_def Let_def)
      then show ?thesis by blast
    qed
  qed
qed

lemma interpret_response_cases:
  assumes "interpret_response w k p = Inr c"
  shows "(\<exists>kwargs. LLMCommand_init w kwargs = Inr c) \<or> failure_report c"
proof -
  from assms obtain result ok where r: "llm_call w k p = Inr result"
    and ok: "has_generated_text result = Inr ok"
    and rest: "(if ok
       then bind_exn (generated_text result) (\<lambda>raw_text.
              case raw_text of
                PStr s \<Rightarrow>
                  (case parse_command w (json_string_to_parse s) of
                     Inl JSONDecodeError \<Rightarrow> Inr (unknown_command msg_invalid_json)
                   | r \<Rightarrow> r)
              | _ \<Rightarrow> Inl TypeError)
       else Inr (unknown_command msg_no_candidates)) = Inr c"
    by (auto simp: interpret_response_def bind_exn_eq_Inr)
  show ?thesis
  proof (cases ok)
    case False
    with rest show ?thesis by (auto simp: failure_report_def)
  next
    case True
    with rest obtain raw_text where
      t: "(case raw_text of
                PStr s \<Rightarrow>
                  (case parse_command w (json_string_to_parse s) of
                     Inl JSONDecodeError \<Rightarrow> Inr (unknown_command msg_invalid_json)
                   | r \<Rightarrow> r)
              | _ \<Rightarrow> Inl TypeError) = Inr c"
      by (auto simp: bind_exn_eq_Inr)
    then obtain s where s: "(case parse_command w (json_string_to_parse s) of
                     Inl JSONDecodeError \<Rightarrow> Inr (unknown_command msg_invalid_json)
                   | r \<Rightarrow> r) = Inr c"
      by (cases raw_text) simp_all
    show ?thesis
    proof (cases "parse_command w (json_string_to_parse s)")
      case (Inr c')
      with s have "c' = c" by simp
      with Inr show ?thesis using parse_command_cases by blast
    next
      case (Inl e)
      with s have "c = unknown_command msg_invalid_json" by (cases e) simp_all
      then show ?thesis by (auto simp: failure_report_def)
    qed
  qed
qed

lemma call_llm_for_command_cases:
  "\<exists>c. call_llm_for_command w user_prompt = Inr c \<and>
       ((\<exists>kwargs. LLMCommand_init w kwargs = Inr c) \<or> failure_report c)"
proof -
  obtain fp where fp: "py_format [(str ''user_prompt'', py_str w user_prompt)] None prompt_template = Inr fp"
    using format_ok by blast
  let ?k = "case GEMINI_API_KEY w of None \<Rightarrow> [] | Some k \<Rightarrow> k"
  show ?thesis
  proof (cases "?k = []")
    case True
    with fp have "call_llm_for_command w user_prompt = Inr (unknown_command msg_no_api_key)"
      by (simp add: call_llm_for_command_def)
    then show ?thesis by (auto simp: failure_report_def)
  next
    case False
    show ?thesis
    proof (cases "interpret_response w ?k fp")
      case (Inr c)
      with fp False have "call_llm_for_command w user_prompt = Inr c"
        by (simp add: call_llm_for_command_def)
      with interpret_response_cases [OF Inr] show ?thesis by blast
    next
      case (Inl e)
      with fp False have "call_llm_for_command w user_prompt = Inr (unknown_command msg_unexpected)
          \<or> (\<exists>code. call_llm_for_command w user_prompt = Inr (unknown_command (msg_http_status code)))"
        by (cases e) (auto simp add: call_llm_for_command_def)
      then show ?thesis by (auto simp: failure_report_def)
    qed
  qed
qed

section \<open>Reading the store\<close>

lemma dict_get_dict_set:
  "dict_get (dict_set d k v) k' = (if k' = k then Some v else dict_get d k')"
  by (induction d) (auto simp: dict_get_def)

lemma str_inject: "str a = str b \<longleftrightarrow> a = b"
  by (simp add: str_def inj_on_def)

lemma get_all_tasks_store_unchanged: "snd (get_all_tasks w self) = self"
  by (simp add: get_all_tasks_def split: option.splits sum.splits)

lemma get_all_tasks_repeat:
  "fst (get_all_tasks w (snd (get_all_tasks w self))) = fst (get_all_tasks w self)"
  by (simp add: get_all_tasks_store_unchanged)

lemma in_set_status:
  "in_set v valid_statuses = Inr ok \<Longrightarrow> ok = (v \<in> PStr ` set valid_statuses)"
  by (auto simp: in_set_def split: if_splits)

lemma fix_task_doc_result:
  assumes "fix_task_doc w d = Inr t"
  shows "(\<exists>s \<in> set valid_statuses. dict_get t (str ''status'') = Some (PStr s))
       \<and> (\<forall>x. dict_get t (str ''created_at'') \<noteq> Some (PDatetime x))"
proof -
  from assms obtain i where i: "dict_get d (str ''_id'') = Some i"
    by (cases "dict_get d (str ''_id'')") (simp_all add: fix_task_doc_def)
  let ?d1 = "dict_set d (str ''_id'') (PStr (py_str w i))"
  let ?cs = "case dict_get ?d1 (str ''status'') of None \<Rightarrow> PNone | Some v \<Rightarrow> v"
  from assms i obtain ok where ok: "in_set ?cs valid_statuses = Inr ok"
    by (cases "in_set ?cs valid_statuses") (simp_all add: fix_task_doc_def Let_def)
  let ?d2 = "if \<not> ok then dict_set ?d1 (str ''status'') (PStr (str ''pending'')) else ?d1"
  from assms i ok have t: "t = (case dict_get ?d2 (str ''created_at'') of
                         Some (PDatetime x) \<Rightarrow> dict_set ?d2 (str ''created_at'') (PStr (isoformat x))
                       | _ \<Rightarrow> ?d2)"
    by (simp add: fix_task_doc_def Let_def)
  have ne: "str ''status'' \<noteq> str ''created_at''" by (simp add: str_inject)
  have s2: "\<exists>s \<in> set valid_statuses. dict_get ?d2 (str ''status'') = Some (PStr s)"
  proof (cases ok)
    case False
    then show ?thesis by (simp add: dict_get_dict_set valid_statuses_def)
  next
    case True
    with in_set_status [OF ok] have "?cs \<in> PStr ` set valid_statuses" by simp
    then obtain s where "s \<in> set valid_statuses" "?cs = PStr s" by blast
    with True show ?thesis
      by (cases "dict_get ?d1 (str ''status'')") auto
  qed
  show ?thesis
  proof (cases "\<exists>x. dict_get ?d2 (str ''created_at'') = Some (PDatetime x)")
    case True
    then obtain x where "dict_get ?d2 (str ''created_at'') = Some (PDatetime x)" by blast
    with t have "t = dict_set ?d2 (str ''created_at'') (PStr (isoformat x))" by simp
    with s2 ne show ?thesis by (simp add: dict_get_dict_set)
  next
    case False
    with t have "t = ?d2"
      by (auto split: option.splits pyval.splits)
    with s2 False show ?thesis by simp
  qed
qed

lemma fix_task_docs_result:
  "fix_task_docs w ds = Inr ts \<Longrightarrow>
   length ts = length ds \<and>
   (\<forall>t \<in> set ts. (\<exists>s \<in> set valid_statuses. dict_get t (str ''status'') = Some (PStr s))
                \<and> (\<forall>x. dict_get t (str ''created_at'') \<noteq> Some (PDatetime x)))"
proof (induction ds arbitrary: ts)
  case Nil then show ?case by simp
next
  case (Cons d ds)
  from Cons.prems obtain t ts' where t: "fix_task_doc w d = Inr t"
    and ts': "fix_task_docs w ds = Inr ts'" and e: "ts = t # ts'"
    by (auto simp: bind_exn_eq_Inr)
  from fix_task_doc_result [OF t] Cons.IH [OF ts'] e show ?case by simp
qed

lemma fix_task_doc_succeeds:
  assumes "dict_get d (str ''_id'') \<noteq> None"
    and "hashable (case dict_get d (str ''status'') of None \<Rightarrow> PNone | Some v \<Rightarrow> v)"
  shows "\<exists>t. fix_task_doc w d = Inr t"
proof -
  have ne: "str ''status'' \<noteq> str ''_id''" by (simp add: str_inject)
  from assms ne show ?thesis
    by (auto simp: fix_task_doc_def Let_def dict_get_dict_set in_set_def)
qed

lemma fix_task_docs_succeed:
  "\<forall>d \<in> set ds. dict_get d (str ''_id'') \<noteq> None \<and>
       hashable (case dict_get d (str ''status'') of None \<Rightarrow> PNone | Some v \<Rightarrow> v) \<Longrightarrow>
   \<exists>ts. fix_task_docs w ds = Inr ts"
proof (induction ds)
  case Nil then show ?case by simp
next
  case (Cons d ds)
  then obtain ts where "fix_task_docs w ds = Inr ts" by auto
  moreover from Cons.prems obtain t where "fix_task_doc w d = Inr t"
    using fix_task_doc_succeeds [of d w] by auto
  ultimately show ?case by simp
qed

lemma get_all_tasks_normalises:
  assumes "db self = Some coll" and "driver_fault w = None"
    and "\<forall>d \<in> set coll. dict_get d (str ''_id'') \<noteq> None \<and>
       hashable (case dict_get d (str ''status'') of None \<Rightarrow> PNone | Some v \<Rightarrow> v)"
  shows "length (fst (get_all_tasks w self)) = length coll
       \<and> (\<forall>t \<in> set (fst (get_all_tasks w self)).
            (\<exists>s \<in> set valid_statuses. dict_get t (str ''status'') = Some (PStr s))
          \<and> (\<forall>x. dict_get t (str ''created_at'') \<noteq> Some (PDatetime x)))
       \<and> snd (get_all_tasks w self) = self"
proof -
  from fix_task_docs_succeed [OF assms(3)] obtain ts where ts: "fix_task_docs w coll = Inr ts" by blast
  with assms(1,2) have "get_all_tasks w self = (ts, self)"
    by (simp add: get_all_tasks_def find_all_def)
  with fix_task_docs_result [OF ts] show ?thesis by simp
qed

section \<open>The example inputs evaluated\<close>

lemma example_fly_body: "json_string_to_parse example_text_fly = str ''{'' @ [34] @ str ''action'' @ [34] @ str '': '' @ [34] @ str ''fly'' @ [34] @ str ''}''"
  by (simp add: json_string_to_parse_def example_text_fly_def str_def match_here_def fence_json_def fence_def isspace_def strip_def)




section \<open>The interpreter, unfolded\<close>

lemma call_llm_for_command_unfold:
  "\<exists>fp. py_format [(str ''user_prompt'', py_str w user_prompt)] None prompt_template = Inr fp \<and>
     call_llm_for_command w user_prompt =
       (let api_key = (case GEMINI_API_KEY w of None \<Rightarrow> [] | Some k \<Rightarrow> k)
        in if api_key = [] then Inr (unknown_command msg_no_api_key)
           else (case interpret_response w api_key fp of
                   Inl (HTTPStatusError code) \<Rightarrow> Inr (unknown_command (msg_http_status code))
                 | Inl e \<Rightarrow> Inr (unknown_command msg_unexpected)
                 | Inr c \<Rightarrow> Inr c))"
proof -
  obtain fp where "py_format [(str ''user_prompt'', py_str w user_prompt)] None prompt_template = Inr fp"
    using format_ok by blast
  then show ?thesis by (simp add: call_llm_for_command_def)
qed

section \<open>The dispatcher\<close>

lemma hd_not_recognized: "hd msg_not_recognized = 65"
  by (simp add: msg_not_recognized_def str_def)

lemma error_result_not_recognized:
  "hd m \<noteq> 65 \<Longrightarrow> error_result m \<noteq> error_result msg_not_recognized"
  using hd_not_recognized by (auto simp: error_result_def)

lemma msg_neq_not_recognized: "hd m \<noteq> 65 \<Longrightarrow> m \<noteq> msg_not_recognized"
  using hd_not_recognized by auto

lemma other_errors:
  "hd msg_no_db \<noteq> 65" "hd msg_need_description \<noteq> 65" "hd msg_update_needs_id \<noteq> 65"
  "hd msg_update_needs_field \<noteq> 65" "hd (msg_update_failed t) \<noteq> 65"
  "hd msg_delete_needs_id \<noteq> 65" "hd (msg_delete_failed t) \<noteq> 65"
  by (simp_all add: msg_no_db_def msg_need_description_def msg_update_needs_id_def
        msg_update_needs_field_def msg_update_failed_def msg_delete_needs_id_def
        msg_delete_failed_def str_def)

lemma status_keys: "str ''success'' \<noteq> str ''error''" "str ''info'' \<noteq> str ''error''"
  "str ''status'' \<noteq> str ''message''" "str ''status'' \<noteq> str ''task_id''"
  "str ''message'' \<noteq> str ''task_id''"
  by (simp_all add: str_inject)

lemma action_names:
  "str ''create'' \<noteq> str ''read''" "str ''create'' \<noteq> str ''update''"
  "str ''create'' \<noteq> str ''delete''" "str ''create'' \<noteq> str ''unknown''"
  "str ''read'' \<noteq> str ''update''" "str ''read'' \<noteq> str ''delete''"
  "str ''read'' \<noteq> str ''unknown''" "str ''update'' \<noteq> str ''delete''"
  "str ''update'' \<noteq> str ''unknown''" "str ''delete'' \<noteq> str ''unknown''"
  by (simp_all add: str_inject)

lemma execute_action_recognised:
  assumes "action c \<in> set valid_actions"
  shows "fst (execute_action w db_manager c) \<noteq> error_result msg_not_recognized"
proof (cases db_manager)
  case None
  then show ?thesis
    by (simp add: execute_action_def error_result_def msg_neq_not_recognized other_errors)
next
  case (Some m)
  from assms consider "action c = str ''create''" | "action c = str ''read''"
    | "action c = str ''update''" | "action c = str ''delete''" | "action c = str ''unknown''"
    by (auto simp: valid_actions_def)
  then show ?thesis
  proof cases
    case 1
    with Some show ?thesis
      by (auto simp: execute_action_def Let_def msg_neq_not_recognized other_errors
            error_result_def status_keys str_inject split: prod.splits)
  next
    case 2
    with Some show ?thesis
      by (simp add: execute_action_def Let_def error_result_def status_keys str_inject)
  next
    case 3
    with Some show ?thesis
      by (auto simp: execute_action_def Let_def msg_neq_not_recognized other_errors
            error_result_def status_keys str_inject split: prod.splits)
  next
    case 4
    with Some show ?thesis
      by (auto simp: execute_action_def Let_def msg_neq_not_recognized other_errors
            error_result_def status_keys str_inject split: prod.splits)
  next
    case 5
    with Some show ?thesis
      by (simp add: execute_action_def Let_def error_result_def status_keys str_inject)
  qed
qed

lemma execute_action_catch_all:
  "action c \<notin> set valid_actions \<Longrightarrow>
   execute_action w (Some m) c = (error_result msg_not_recognized, Some m)"
  by (simp add: execute_action_def valid_actions_def)

lemma call_llm_for_command_action:
  assumes "call_llm_for_command w user_prompt = Inr c"
  shows "action c \<in> set valid_actions"
proof -
  from call_llm_for_command_cases [of w user_prompt] assms
  have "(\<exists>kwargs. LLMCommand_init w kwargs = Inr c) \<or> failure_report c" by auto
  then have "well_formed c"
    by (auto simp: failure_report_def unknown_command_well_formed dest: LLMCommand_init_well_formed)
  then show ?thesis by (simp add: well_formed_def)
qed

section \<open>The store on the example inputs\<close>

lemma example_isoformat: "isoformat example_clock = str ''2025-07-03T09:30:00''"
  by code_simp

lemma get_all_tasks_example:
  "fst (get_all_tasks (example_world []) \<lparr>db = Some [example_task (PStr (str ''done''))]\<rparr>)
     = [[(str ''_id'', PStr (str ''60c7b41b1d7d8f9c7b4c3e21'')),
      (str ''description'', PStr (str ''comprar pan'')),
      (str ''created_at'', PStr (str ''2025-07-03T09:30:00'')),
      (str ''status'', PStr (str ''pending''))]]"
  by (simp add: get_all_tasks_def find_all_def example_world_def fix_task_doc_def example_task_def
        dict_get_def str_inject in_set_def Let_def py_str_def valid_statuses_def example_isoformat)

lemma example_no_api_key: "call_llm_for_command ((example_world [])\<lparr>GEMINI_API_KEY := None\<rparr>) (PStr (str ''hola''))
   = Inr (unknown_command msg_no_api_key)"
  using call_llm_for_command_unfold [of "(example_world [])\<lparr>GEMINI_API_KEY := None\<rparr>" "PStr (str ''hola'')"]
  by (auto simp: example_world_def)

section \<open>The claims\<close>





text \<open>
  \<^bold>\<open>C3.\<close>  The claim: a \<open>create\<close> command without a status stores a task whose status is
  \<open>pending\<close>.  The dispatcher passes \<open>status=None\<close> to \<open>add_task\<close> explicitly, so the
  default \<open>"pending"\<close> of its signature never applies, and the document is stored with a
  null status.  The theorem runs the dispatcher on such a command against an empty,
  connected store.
\<close>

theorem create_without_status_stores_null: 
  "execute_action (example_world []) (Some \<lparr>db = Some []\<rparr>) example_create_command =
     ([(str ''status'', PStr (str ''success'')),
       (str ''message'', PStr (msg_created (str ''comprar pan'') (str ''60c7b41b1d7d8f9c7b4c3e21''))),
       (str ''task_id'', PStr (str ''60c7b41b1d7d8f9c7b4c3e21''))],
      Some \<lparr>db = Some [example_task PNone]\<rparr>)
   \<and> dict_get (example_task PNone) (str ''status'') \<noteq> Some (PStr (str ''pending''))"
  by (simp add: execute_action_def example_create_command_def truthy_opt_def opt_val_def
        add_task_def insert_one_def example_world_def example_task_def py_str_def
        dict_get_def msg_created_def str_def)

text \<open>
  \<^bold>\<open>C4.\<close>  For a \<open>create\<close> command with a non-empty description, when \<open>add_task\<close> returns
  \<open>None\<close> the dispatcher's result still has status \<open>success\<close>; its message is the creation
  message with the text \<open>None\<close> in the place of the id, and its \<open>task_id\<close> is \<open>None\<close>.
\<close>

theorem create_failure_reported_as_success:
  assumes "action c = str ''create''" and "truthy_opt (description c)"
    and "fst (add_task w m (the (description c)) (start_date c) (status c)) = None"
  shows "fst (execute_action w (Some m) c) =
           [(str ''status'', PStr (str ''success'')),
            (str ''message'',
             PStr (str ''Tarea '' @ [39] @ the (description c) @ [39]
                   @ str '' creada con ID: '' @ str ''None'')),
            (str ''task_id'', PNone)]"
proof -
  obtain m' where a: "add_task w m (the (description c)) (start_date c) (status c) = (None, m')"
    using assms(3) by (cases "add_task w m (the (description c)) (start_date c) (status c)") auto
  show ?thesis
    using assms(1,2) a status_keys
    by (simp add: execute_action_def Let_def msg_created_def py_str_def opt_val_def)
qed

theorem create_failure_reported_as_success_witness:
  "fst (execute_action ((example_world [])\<lparr>driver_fault := Some OtherException\<rparr>)
          (Some \<lparr>db = Some []\<rparr>) example_create_command) =
     [(str ''status'', PStr (str ''success'')),
      (str ''message'',
       PStr (str ''Tarea '' @ [39] @ str ''comprar pan'' @ [39]
             @ str '' creada con ID: '' @ str ''None'')),
      (str ''task_id'', PNone)]"
proof -
  let ?w = "(example_world [])\<lparr>driver_fault := Some OtherException\<rparr>"
  have a: "action example_create_command = str ''create''"
    and d: "the (description example_create_command) = str ''comprar pan''"
    by (simp_all add: example_create_command_def)
  have b: "truthy_opt (description example_create_command)"
    by (simp add: example_create_command_def truthy_opt_def opt_val_def str_def)
  have f: "fst (add_task ?w \<lparr>db = Some []\<rparr> (the (description example_create_command))
                  (start_date example_create_command) (status example_create_command)) = None"
    by (simp add: add_task_def insert_one_def example_world_def)
  from create_failure_reported_as_success [OF a b f] d show ?thesis by simp
qed

text \<open>
  \<^bold>\<open>C5.\<close>  The JSON body the interpreter parses is the one the specification describes:
  when the text holds a \<open>```json\<close> marker followed by a \<open>```\<close>, the content between the
  first such marker and the first \<open>```\<close> after it, trimmed; otherwise the whole text,
  trimmed.  The left side is the regular expression as the matcher runs it.
\<close>

theorem json_string_to_parse_fenced: "json_string_to_parse raw_text = spec_json_body raw_text"
  by (simp add: json_string_to_parse_def spec_json_body_def re_search_eq strip_idem split: option.splits)

theorem json_string_to_parse_fenced_witness:
  "json_string_to_parse example_text_fly = spec_json_body example_text_fly
   \<and> spec_json_body example_text_fly
       = str ''{'' @ [34] @ str ''action'' @ [34] @ str '': '' @ [34] @ str ''fly'' @ [34] @ str ''}''"
  using json_string_to_parse_fenced [of example_text_fly] example_fly_body by simp



text \<open>
  \<^bold>\<open>C7.\<close>  The claim: for every store state \<open>get_all_tasks\<close> returns each task with an
  invalid status replaced by \<open>pending\<close>.  The test \<open>current_status not in valid_statuses\<close>
  is a membership test in a set, which raises \<open>TypeError\<close> on a list or a dict; the
  handler then returns the empty list.  The theorem lists a store of two tasks, the
  second with an array as its status.  (That the store is never written, and that every
  task is repaired when each status is hashable, are the lemmas
  \<open>get_all_tasks_store_unchanged\<close> and \<open>get_all_tasks_normalises\<close>.)
\<close>

theorem get_all_tasks_unhashable_status:
  "get_all_tasks (example_world []) \<lparr>db = Some [example_task (PStr (str ''done'')), example_task (PList [])]\<rparr>
     = ([], \<lparr>db = Some [example_task (PStr (str ''done'')), example_task (PList [])]\<rparr>)"
  by (simp add: get_all_tasks_def find_all_def example_world_def fix_task_doc_def example_task_def
        dict_get_def str_inject in_set_def Let_def py_str_def valid_statuses_def)

text \<open>
  \<^bold>\<open>C8.\<close>  Without a connection (\<open>self.db\<close> is \<open>None\<close>) every operation returns its failure
  value (\<open>None\<close>, the empty list, \<open>False\<close>, \<open>False\<close>) and leaves the manager as it was,
  whatever its other arguments are and whatever the driver would do: the check comes
  before any other work.
\<close>

theorem no_connection_failure:
  assumes "db self = None"
  shows "add_task w self descr sdate st = (None, self)
       \<and> get_all_tasks w self = ([], self)
       \<and> update_task w self tid descr' sdate' st' = (False, self)
       \<and> delete_task w self tid' = (False, self)"
  using assms
  by (simp add: add_task_def get_all_tasks_def update_task_def delete_task_def)

theorem no_connection_failure_witness:
  "add_task (example_world []) \<lparr>db = None\<rparr> (str ''comprar pan'') None None = (None, \<lparr>db = None\<rparr>)
 \<and> get_all_tasks (example_world []) \<lparr>db = None\<rparr> = ([], \<lparr>db = None\<rparr>)
 \<and> update_task (example_world []) \<lparr>db = None\<rparr> (str ''no-id'') None None (Some (str ''done''))
     = (False, \<lparr>db = None\<rparr>)
 \<and> delete_task (example_world []) \<lparr>db = None\<rparr> (str ''no-id'') = (False, \<lparr>db = None\<rparr>)"
  by (rule no_connection_failure) simp

text \<open>
  \<^bold>\<open>C9.\<close>  For a request body that is a JSON object, the endpoint answers 400 when the key
  \<open>command\<close> is absent and when its value is falsy (the empty string among them), in
  every world: the interpreter and the store play no part in the response.
\<close>

theorem falsy_command_rejected:
  assumes "dict_get d (str ''command'') = None
           \<or> (\<exists>v. dict_get d (str ''command'') = Some v \<and> \<not> truthy v)"
  shows "process_command w db_manager (PDict d)
         = (Inl (HTTPException 400 msg_command_required), db_manager)"
  using assms by (auto simp add: process_command_def py_get_def)

theorem falsy_command_rejected_witness:
  "process_command (example_world []) (Some \<lparr>db = Some []\<rparr>) (PDict [(str ''command'', PStr [])])
     = (Inl (HTTPException 400 msg_command_required), Some \<lparr>db = Some []\<rparr>)
 \<and> process_command (example_world []) (Some \<lparr>db = Some []\<rparr>) (PDict [])
     = (Inl (HTTPException 400 msg_command_required), Some \<lparr>db = Some []\<rparr>)"
proof -
  have "dict_get [(str ''command'', PStr [])] (str ''command'') = Some (PStr []) \<and> \<not> truthy (PStr [])"
    by (simp add: dict_get_def)
  then have a: "dict_get [(str ''command'', PStr [])] (str ''command'') = None
           \<or> (\<exists>v. dict_get [(str ''command'', PStr [])] (str ''command'') = Some v \<and> \<not> truthy v)"
    by blast
  have b: "dict_get ([] :: (pystr \<times> pyval) list) (str ''command'') = None
           \<or> (\<exists>v. dict_get ([] :: (pystr \<times> pyval) list) (str ''command'') = Some v \<and> \<not> truthy v)"
    by (simp add: dict_get_def)
  from falsy_command_rejected [OF a] falsy_command_rejected [OF b] show ?thesis by blast
qed

text \<open>
  \<^bold>\<open>C10.\<close>  Whatever command the interpreter returns, the dispatcher's result is not the
  one of its final \<open>else\<close> branch (status \<open>error\<close>, "action not recognized by the
  system"), with or without a store manager: that branch is taken only for an action
  outside the five (lemma \<open>execute_action_catch_all\<close>), and the interpreter returns none.
\<close>

theorem catch_all_unreachable:
  "call_llm_for_command w user_prompt = Inr c \<Longrightarrow>
   fst (execute_action w' db_manager c) \<noteq> error_result msg_not_recognized"
  by (rule execute_action_recognised) (rule call_llm_for_command_action)

theorem catch_all_unreachable_witness:
  "call_llm_for_command ((example_world [])\<lparr>GEMINI_API_KEY := None\<rparr>) (PStr (str ''hola''))
     = Inr (unknown_command msg_no_api_key)
 \<and> fst (execute_action (example_world []) (Some \<lparr>db = Some []\<rparr>) (unknown_command msg_no_api_key))
     \<noteq> error_result msg_not_recognized"
  using example_no_api_key catch_all_unreachable [OF example_no_api_key]
  by simp

end
